theory Spec2Isabelle
  imports Main
begin

section \<open>The marketplace page: data model\<close>

text \<open>
  The buyer's marketplace page (\<^verbatim>\<open>app/buyer/marketplace/page.tsx\<close>) keeps its cart and
  the per-product selection in React state. Each handler is modelled as a function
  from the state it reads to the state it leaves behind; the handlers of one page run
  one after the other, each on the state the previous one left.

  The numbers the page holds are integers: the quantities come from
  \<^verbatim>\<open>Number.parseInt\<close> and from adding or subtracting one, the prices are integer
  amounts of yen. They are kept as \<open>int\<close>; quantities are counts below the stock
  ceilings and are added as such. The total multiplies prices by quantities and sums
  the products, and is computed with the rounding of JavaScript's double-precision
  numbers (section Numbers). Field names that several interfaces share carry a prefix.
\<close>

record product_option =
  opt_id :: string
  opt_code :: string
  opt_name :: string
  opt_price :: int
  opt_quantity :: int

record product =
  prod_id :: string
  prod_code :: string
  prod_name :: string
  prod_img :: string
  prod_options :: "product_option list"

record cart_item =
  productId :: string
  productName :: string
  productCode :: string
  optionId :: string
  optionName :: string
  price :: int
  quantity :: int
  maxQuantity :: int

text \<open>A call of \<^verbatim>\<open>toast({title, description, variant})\<close>.\<close>

datatype toast = Toast (title: string) (description: string) (destructive: bool)

record page_state =
  products :: "product list"
  cart :: "cart_item list"
  selectedOptions :: "string \<rightharpoonup> string"
  quantities :: "string \<rightharpoonup> int"
  toasts :: "toast list"

text \<open>The state of a freshly mounted page, once the products have been fetched.\<close>

definition initial_page :: "product list \<Rightarrow> page_state" where
  "initial_page ps =
     \<lparr>products = ps, cart = [], selectedOptions = Map.empty, quantities = Map.empty,
      toasts = []\<rparr>"

section \<open>Array helpers\<close>

text \<open>
  \<^verbatim>\<open>Array.prototype.findIndex\<close>: the index of the first element satisfying the
  predicate; \<open>None\<close> stands for the result \<^verbatim>\<open>-1\<close>.
\<close>

fun findIndex :: "('a \<Rightarrow> bool) \<Rightarrow> 'a list \<Rightarrow> nat option" where
  "findIndex P [] = None"
| "findIndex P (x # xs) =
     (if P x then Some 0 else map_option Suc (findIndex P xs))"

text \<open>
  \<^verbatim>\<open>xs.filter((_, i) => i !== index)\<close>, the elements paired with their positions from
  \<open>k\<close> on. The index is any number the caller passes, so it is an \<open>int\<close>.
\<close>

fun filter_index_from :: "nat \<Rightarrow> int \<Rightarrow> 'a list \<Rightarrow> 'a list" where
  "filter_index_from k index [] = []"
| "filter_index_from k index (x # xs) =
     (if int k \<noteq> index then x # filter_index_from (Suc k) index xs
      else filter_index_from (Suc k) index xs)"

section \<open>Cart store\<close>

text \<open>
  \<^verbatim>\<open>removeFromCart\<close>:
  \<^verbatim>\<open>const newCart = cart.filter((_, i) => i !== index); setCart(newCart)\<close>
\<close>

definition removeFromCart :: "page_state \<Rightarrow> int \<Rightarrow> page_state" where
  "removeFromCart st index = st\<lparr>cart := filter_index_from 0 index (cart st)\<rparr>"

section \<open>Numbers\<close>

text \<open>
  A JavaScript number that results from arithmetic on integers: an integer that a
  double represents, or a value that is not finite (\<^verbatim>\<open>Infinity\<close>, \<^verbatim>\<open>-Infinity\<close>,
  \<^verbatim>\<open>NaN\<close>).
\<close>

datatype js_number = Num int | NonFinite

text \<open>
  The binary exponent of a magnitude: how often it must be halved to fit the 53 bits
  of a double's significand.
\<close>

function exponent_of :: "nat \<Rightarrow> nat" where
  "exponent_of m = (if m < 2 ^ 53 then 0 else Suc (exponent_of (m div 2)))"
  by pat_completeness auto
termination
  by (relation "measure (\<lambda>m. m)") auto

declare exponent_of.simps [simp del]

text \<open>
  The double nearest to an integer, as IEEE 754 arithmetic delivers it: the magnitude
  is rounded to 53 significant bits, a tie goes to the even significand, and a result
  of \<open>2 ^ 1024\<close> or more is \<^verbatim>\<open>Infinity\<close>.
\<close>

definition to_double :: "int \<Rightarrow> js_number" where
  "to_double x =
     (let m = nat \<bar>x\<bar>;
          e = exponent_of m;
          q = m div 2 ^ e;
          r = m mod 2 ^ e;
          q' = (if 2 ^ e < 2 * r \<or> (2 * r = 2 ^ e \<and> odd q) then Suc q else q)
      in if 2 ^ 1024 \<le> q' * 2 ^ e then NonFinite else Num (sgn x * int (q' * 2 ^ e)))"

text \<open>
  \<^verbatim>\<open>a * b\<close> and \<^verbatim>\<open>a + b\<close> on such numbers: the exact result, rounded. A value that is
  not finite stays so under both.
\<close>

fun js_mul :: "js_number \<Rightarrow> js_number \<Rightarrow> js_number" where
  "js_mul (Num a) (Num b) = to_double (a * b)"
| "js_mul a b = NonFinite"

fun js_add :: "js_number \<Rightarrow> js_number \<Rightarrow> js_number" where
  "js_add (Num a) (Num b) = to_double (a + b)"
| "js_add a b = NonFinite"

text \<open>\<^verbatim>\<open>Number.isSafeInteger\<close>: magnitudes up to \<open>2 ^ 53 - 1\<close>.\<close>

definition safe_integer :: "int \<Rightarrow> bool" where
  "safe_integer x \<longleftrightarrow> \<bar>x\<bar> \<le> 2 ^ 53 - 1"

section \<open>The total\<close>

text \<open>
  \<^verbatim>\<open>getTotalAmount\<close>:
  \<^verbatim>\<open>cart.reduce((total, item) => total + item.price * item.quantity, 0)\<close>.
  It reads the cart and returns a number.
\<close>

definition getTotalAmount :: "page_state \<Rightarrow> js_number" where
  "getTotalAmount st =
     foldl (\<lambda>total item. js_add total (js_mul (Num (price item)) (Num (quantity item))))
       (Num 0) (cart st)"

text \<open>
  A call of \<^verbatim>\<open>getTotalAmount\<close> as a step of the page, like the handlers: the number
  it returns and the state it leaves. Its body calls no state setter and the callback
  of \<^verbatim>\<open>reduce\<close> assigns to no field of a line, so the state it leaves is the state it
  found.
\<close>

definition getTotalAmount_call :: "page_state \<Rightarrow> js_number \<times> page_state" where
  "getTotalAmount_call st = (getTotalAmount st, st)"

text \<open>
  A cart for which the arithmetic of the total stays exact, given the total so far:
  the price, the quantity, their product and the running total of every line are safe
  integers.
\<close>

fun safe_totals :: "int \<Rightarrow> cart_item list \<Rightarrow> bool" where
  "safe_totals acc [] = True"
| "safe_totals acc (item # items) =
     (safe_integer (price item) \<and> safe_integer (quantity item)
      \<and> safe_integer (price item * quantity item)
      \<and> safe_integer (acc + price item * quantity item)
      \<and> safe_totals (acc + price item * quantity item) items)"

section \<open>Catalog selection state\<close>

text \<open>
  \<^verbatim>\<open>handleOptionSelect\<close>:
  \<^verbatim>\<open>setSelectedOptions((prev) => ({ ...prev, [productId]: optionId }))\<close>,
  \<^verbatim>\<open>setQuantities((prev) => ({ ...prev, [productId]: 1 }))\<close>.
\<close>

definition handleOptionSelect :: "page_state \<Rightarrow> string \<Rightarrow> string \<Rightarrow> page_state" where
  "handleOptionSelect st pid oid =
     st\<lparr>selectedOptions := (selectedOptions st)(pid \<mapsto> oid),
        quantities := (quantities st)(pid \<mapsto> 1)\<rparr>"

text \<open>
  The lookup both handlers start with:
  \<^verbatim>\<open>products.find((p) => p.id === productId)\<close>, then
  \<^verbatim>\<open>product?.options.find((opt) => opt.id === selectedOptions[productId])\<close>.
  A product never picked has \<^verbatim>\<open>selectedOptions[productId] === undefined\<close>, which
  equals no option id.
\<close>

definition find_product :: "page_state \<Rightarrow> string \<Rightarrow> product option" where
  "find_product st pid = find (\<lambda>p. prod_id p = pid) (products st)"

definition find_selectedOption :: "page_state \<Rightarrow> string \<Rightarrow> product_option option" where
  "find_selectedOption st pid =
     (case find_product st pid of
        None \<Rightarrow> None
      | Some p \<Rightarrow> find (\<lambda>opt. Some (opt_id opt) = selectedOptions st pid) (prod_options p))"

text \<open>
  \<^verbatim>\<open>handleQuantityChange\<close>: the setter runs only under
  \<^verbatim>\<open>selectedOption && quantity <= selectedOption.quantity && quantity >= 1\<close>;
  there is no \<^verbatim>\<open>else\<close> branch.
\<close>

definition handleQuantityChange :: "page_state \<Rightarrow> string \<Rightarrow> int \<Rightarrow> page_state" where
  "handleQuantityChange st pid q =
     (case find_selectedOption st pid of
        None \<Rightarrow> st
      | Some opt \<Rightarrow>
          if q \<le> opt_quantity opt \<and> q \<ge> 1
          then st\<lparr>quantities := (quantities st)(pid \<mapsto> q)\<rparr>
          else st)"

section \<open>Adding to the cart\<close>

text \<open>
  \<^verbatim>\<open>quantities[productId] || 1\<close>: an absent entry and the number 0 both give 1.
\<close>

definition chosen_quantity :: "page_state \<Rightarrow> string \<Rightarrow> int" where
  "chosen_quantity st pid =
     (case quantities st pid of None \<Rightarrow> 1 | Some q \<Rightarrow> if q = 0 then 1 else q)"

text \<open>
  The cart update of \<^verbatim>\<open>addToCart\<close> (from \<^verbatim>\<open>cart.findIndex(...)\<close> to the two
  \<^verbatim>\<open>setCart\<close> calls). With a line for the pair present, the quantity of the first such
  line grows by the added amount (\<^verbatim>\<open>newCart[existingItemIndex].quantity += quantity\<close>, no
  comparison with \<^verbatim>\<open>maxQuantity\<close>); otherwise \<^verbatim>\<open>newItem\<close>, built from the product
  and the option, is appended. The index \<^verbatim>\<open>findIndex\<close> returns is inside the array, so
  the update never reads out of range.
\<close>

definition same_pair :: "string \<Rightarrow> string \<Rightarrow> cart_item \<Rightarrow> bool" where
  "same_pair pid oid item \<longleftrightarrow> productId item = pid \<and> optionId item = oid"

definition newItem :: "string \<Rightarrow> product \<Rightarrow> string \<Rightarrow> product_option \<Rightarrow> int \<Rightarrow> cart_item" where
  "newItem pid p selectedOptionId selectedOption q =
     \<lparr>productId = pid, productName = prod_name p, productCode = prod_code p,
      optionId = selectedOptionId, optionName = opt_name selectedOption,
      price = opt_price selectedOption, quantity = q,
      maxQuantity = opt_quantity selectedOption\<rparr>"

definition addOrMerge ::
  "cart_item list \<Rightarrow> string \<Rightarrow> product \<Rightarrow> string \<Rightarrow> product_option \<Rightarrow> int \<Rightarrow> cart_item list"
where
  "addOrMerge c pid p selectedOptionId selectedOption q =
     (case findIndex (same_pair pid selectedOptionId) c of
        Some existingItemIndex \<Rightarrow>
          c[existingItemIndex :=
              (c ! existingItemIndex)\<lparr>quantity := quantity (c ! existingItemIndex) + q\<rparr>]
      | None \<Rightarrow> c @ [newItem pid p selectedOptionId selectedOption q])"

definition select_option_toast :: toast where
  "select_option_toast = Toast ''Error'' ''Please select a product option'' True"

definition added_toast :: "product \<Rightarrow> product_option \<Rightarrow> toast" where
  "added_toast p opt = Toast ''Added to cart'' (prod_name p @ '' - '' @ opt_name opt) False"

text \<open>
  \<^verbatim>\<open>addToCart\<close>. Without a product or without a selected option it shows the error
  toast and returns. Otherwise it updates the cart, shows the success toast and resets
  the selection of the product: \<^verbatim>\<open>selectedOptions[productId] = ""\<close>,
  \<^verbatim>\<open>quantities[productId] = 1\<close>. The quantity is not checked anywhere in it.
  \<^verbatim>\<open>selectedOptionId\<close> is the id of the option that \<^verbatim>\<open>find\<close> returned for it.
\<close>

definition addToCart :: "page_state \<Rightarrow> string \<Rightarrow> page_state" where
  "addToCart st pid =
     (case (find_product st pid, find_selectedOption st pid) of
        (Some p, Some selectedOption) \<Rightarrow>
          st\<lparr>cart := addOrMerge (cart st) pid p (opt_id selectedOption) selectedOption
                       (chosen_quantity st pid),
             toasts := toasts st @ [added_toast p selectedOption],
             selectedOptions := (selectedOptions st)(pid \<mapsto> ''''),
             quantities := (quantities st)(pid \<mapsto> 1)\<rparr>
      | _ \<Rightarrow> st\<lparr>toasts := toasts st @ [select_option_toast]\<rparr>)"

section \<open>Sequences of adds, and the cart invariant\<close>

text \<open>
  The user picks option \<open>oid\<close> of product \<open>pid\<close>, the quantity \<open>q\<close> is in the
  selection, and the Add button calls \<^verbatim>\<open>addToCart(pid)\<close>.
\<close>

definition addToCart_with :: "page_state \<Rightarrow> string \<Rightarrow> string \<Rightarrow> int \<Rightarrow> page_state" where
  "addToCart_with st pid oid q =
     addToCart (st\<lparr>selectedOptions := (selectedOptions st)(pid \<mapsto> oid),
                   quantities := (quantities st)(pid \<mapsto> q)\<rparr>) pid"


definition line_key :: "cart_item \<Rightarrow> string \<times> string" where
  "line_key item = (productId item, optionId item)"

text \<open>The invariant of the data model: at most one line per (product, option) pair.\<close>

definition cart_unique :: "cart_item list \<Rightarrow> bool" where
  "cart_unique c \<longleftrightarrow> distinct (map line_key c)"



definition add_sequence :: "page_state \<Rightarrow> string \<Rightarrow> string \<Rightarrow> int list \<Rightarrow> page_state" where
  "add_sequence st pid oid qs = foldl (\<lambda>s q. addToCart_with s pid oid q) st qs"

text \<open>
  The range the quantity control aims at: with an option selected and a quantity
  stored for the product, the quantity lies between 1 and the option's ceiling.
\<close>

definition quantity_in_range :: "page_state \<Rightarrow> string \<Rightarrow> bool" where
  "quantity_in_range st pid =
     (case (find_selectedOption st pid, quantities st pid) of
        (Some opt, Some qty) \<Rightarrow> 1 \<le> qty \<and> qty \<le> opt_quantity opt
      | _ \<Rightarrow> True)"

section \<open>The WebSocket provider: data model\<close>

text \<open>
  \<^verbatim>\<open>components/websocket-provider.tsx\<close>. The payload of a message is typed
  \<^verbatim>\<open>any\<close> and cast without a check, so one type holds whatever JSON arrives under
  \<^verbatim>\<open>data\<close>; \<open>None\<close> in \<open>data\<close> stands for an absent or falsy value, which the
  guards \<^verbatim>\<open>message.data\<close> reject.
\<close>

record created_option =
  co_id :: string
  co_name :: string
  co_price :: int
  co_quantity :: int

record product_created_data =
  pc_id :: string
  pc_code :: string
  pc_name :: string
  pc_img :: string
  pc_options :: "created_option list"

record order_updated_data =
  ou_id :: string
  ou_order_number :: string
  ou_status :: string

datatype json_data =
    ProductData product_created_data
  | OrderData order_updated_data
  | OtherData string

record ws_message =
  event :: string
  data :: "json_data option"

text \<open>
  What \<^verbatim>\<open>JSON.parse(lastMessage.data)\<close> does with a frame: it throws a
  \<^verbatim>\<open>SyntaxError\<close> on text that is not JSON, and returns the value otherwise. The value
  \<^verbatim>\<open>null\<close> is kept apart, since reading \<^verbatim>\<open>message.event\<close> from it throws a
  \<^verbatim>\<open>TypeError\<close>; any other value is read through the fields \<^verbatim>\<open>event\<close> and
  \<^verbatim>\<open>data\<close>.
\<close>

datatype json_value = JNull | JMessage ws_message

datatype frame = Malformed string | Wellformed json_value

datatype exn = SyntaxError | TypeError

fun JSON_parse :: "frame \<Rightarrow> exn + json_value" where
  "JSON_parse (Malformed s) = Inl SyntaxError"
| "JSON_parse (Wellformed v) = Inr v"

text \<open>
  The token in \<^verbatim>\<open>localStorage\<close>, as far as the mount effect looks at it: either
  \<^verbatim>\<open>JSON.parse(atob(token.split(".")[1]))\<close> or the read of \<^verbatim>\<open>.role\<close> throws, or
  the payload decodes and has the given role (\<open>None\<close> for a payload without one).
\<close>

datatype token = Undecodable | Decoded "string option"

datatype console_entry = Log string | Error string

text \<open>The two callbacks the provider hands to \<^verbatim>\<open>setTimeout\<close>.\<close>

datatype timer_callback = HideProduct | HideOrder

datatype channel_state = Disconnected | Connecting | Connected

text \<open>
  The React state of the provider, what \<^verbatim>\<open>useWebSocket\<close> returns
  (\<open>lastMessage\<close>, and \<open>channel\<close> for \<^verbatim>\<open>readyState\<close>), the timers that are
  pending with the time each is due, and what has been written to the console and shown
  as toasts. \<open>attempts\<close> counts the connections the channel has tried to open.
\<close>

record provider_state =
  userRole :: "string option"
  showNotification :: bool
  newProduct :: "json_data option"
  showOrderNotification :: bool
  updatedOrder :: "json_data option"
  lastMessage :: "frame option"
  channel :: channel_state
  attempts :: nat
  retries :: nat
  timers :: "(nat \<times> timer_callback) list"
  console :: "console_entry list"
  provider_toasts :: "toast list"

definition initial_provider :: provider_state where
  "initial_provider =
     \<lparr>userRole = None, showNotification = False, newProduct = None,
      showOrderNotification = False, updatedOrder = None, lastMessage = None,
      channel = Disconnected, attempts = 0, retries = 0, timers = [], console = [],
      provider_toasts = []\<rparr>"

section \<open>Role and push channel\<close>

text \<open>
  The effect that runs once on mount: without a token nothing happens; a token that
  does not decode is logged; otherwise \<^verbatim>\<open>setUserRole(tokenPayload.role)\<close>.
  No other code calls \<^verbatim>\<open>setUserRole\<close>.
\<close>

definition mount_effect :: "token option \<Rightarrow> provider_state \<Rightarrow> provider_state" where
  "mount_effect tok st =
     (case tok of
        None \<Rightarrow> st
      | Some Undecodable \<Rightarrow> st\<lparr>console := console st @ [Error ''Failed to parse token:'']\<rparr>
      | Some (Decoded r) \<Rightarrow> st\<lparr>userRole := r\<rparr>)"

text \<open>
  The third argument of \<^verbatim>\<open>useWebSocket\<close>: \<^verbatim>\<open>userRole === "buyer"\<close>.
\<close>

definition connect_flag :: "provider_state \<Rightarrow> bool" where
  "connect_flag st \<longleftrightarrow> userRole st = Some ''buyer''"

text \<open>The option \<^verbatim>\<open>reconnectAttempts: 10\<close>.\<close>

definition reconnectAttempts :: nat where
  "reconnectAttempts = 10"

text \<open>
  Modelled from the spec: the hook \<^verbatim>\<open>useWebSocket\<close> of the package
  \<^verbatim>\<open>react-use-websocket\<close>, which owns the socket, is not part of the sources. Section
  4.3 of the specification gives its state machine: the subscription is active only
  while the role is the consuming role, and inactive (not connected) otherwise; on the
  role becoming the consuming role the channel enters \<open>Connecting\<close>; on the role no
  longer being it the channel is forced to \<open>Disconnected\<close>.
\<close>

definition sync_channel :: "provider_state \<Rightarrow> provider_state" where
  "sync_channel st =
     (if connect_flag st
      then (if channel st = Disconnected
            then st\<lparr>channel := Connecting, attempts := Suc (attempts st)\<rparr> else st)
      else st\<lparr>channel := Disconnected\<rparr>)"

datatype socket_event = HandshakeOk | TransportError | UnexpectedClose

definition connected_toast :: toast where
  "connected_toast = Toast ''Connected'' ''Real-time notifications enabled'' False"

definition connection_error_toast :: toast where
  "connection_error_toast =
     Toast ''Connection Error'' ''Failed to connect to real-time notifications'' True"

text \<open>
  Modelled from the spec: the reconnection of the absent hook \<^verbatim>\<open>useWebSocket\<close>. On a
  transport error or an unexpected close the channel returns to \<open>Connecting\<close>, up to
  the maximum number of retries; beyond it the channel ends in \<open>Disconnected\<close>. The
  backoff delay is not modelled.
\<close>

definition reconnect :: "provider_state \<Rightarrow> provider_state" where
  "reconnect st =
     (if retries st < reconnectAttempts
      then st\<lparr>channel := Connecting, attempts := Suc (attempts st), retries := Suc (retries st)\<rparr>
      else st\<lparr>channel := Disconnected, retries := Suc (retries st)\<rparr>)"

text \<open>
  Modelled from the spec: what the absent hook \<^verbatim>\<open>useWebSocket\<close> does on the events of
  its socket. A successful handshake leads from \<open>Connecting\<close> to \<open>Connected\<close>; a
  channel without a socket has no socket events. The console lines and toasts are those
  of the callbacks \<^verbatim>\<open>onOpen\<close>, \<^verbatim>\<open>onError\<close> and \<^verbatim>\<open>onClose\<close> that the provider
  passes to the hook.
\<close>

fun socket_step :: "socket_event \<Rightarrow> provider_state \<Rightarrow> provider_state" where
  "socket_step HandshakeOk st =
     (if channel st = Connecting
      then st\<lparr>channel := Connected, retries := 0,
              console := console st @ [Log ''WebSocket connected''],
              provider_toasts := provider_toasts st @ [connected_toast]\<rparr>
      else st)"
| "socket_step TransportError st =
     (if channel st = Disconnected then st
      else reconnect (st\<lparr>console := console st @ [Error ''WebSocket error:''],
                         provider_toasts := provider_toasts st @ [connection_error_toast]\<rparr>))"
| "socket_step UnexpectedClose st =
     (if channel st = Disconnected then st
      else reconnect (st\<lparr>console := console st @ [Log ''WebSocket disconnected'']\<rparr>))"

text \<open>
  Mounting the provider: the first render has \<^verbatim>\<open>userRole === null\<close>, the mount effect
  reads the role, and the render that follows passes the flag to the hook.
\<close>

definition mount :: "token option \<Rightarrow> provider_state" where
  "mount tok = sync_channel (mount_effect tok initial_provider)"

section \<open>Notifications\<close>

text \<open>The delay of both \<^verbatim>\<open>setTimeout\<close> calls, in milliseconds.\<close>

definition dismiss_after :: nat where
  "dismiss_after = 100000"

text \<open>
  The two \<^verbatim>\<open>if\<close> blocks of the message effect. Each stores the payload, raises the
  flag and starts a timer that lowers the flag; the identifier \<^verbatim>\<open>setTimeout\<close> returns
  is dropped, and the file contains no \<^verbatim>\<open>clearTimeout\<close>. \<open>now\<close> is the time at which
  the effect runs.
\<close>

definition product_branch :: "nat \<Rightarrow> ws_message \<Rightarrow> provider_state \<Rightarrow> provider_state" where
  "product_branch now m st =
     (if event m = ''product_created'' \<and> data m \<noteq> None
      then st\<lparr>newProduct := data m, showNotification := True,
              timers := timers st @ [(now + dismiss_after, HideProduct)]\<rparr>
      else st)"

definition order_branch :: "nat \<Rightarrow> ws_message \<Rightarrow> provider_state \<Rightarrow> provider_state" where
  "order_branch now m st =
     (if event m = ''order_updated'' \<and> data m \<noteq> None
      then st\<lparr>updatedOrder := data m, showOrderNotification := True,
              timers := timers st @ [(now + dismiss_after, HideOrder)]\<rparr>
      else st)"

text \<open>The \<^verbatim>\<open>catch\<close> block of the message effect.\<close>

definition parse_failed :: "provider_state \<Rightarrow> provider_state" where
  "parse_failed st = st\<lparr>console := console st @ [Error ''Failed to parse WebSocket message:'']\<rparr>"

text \<open>
  The effect on \<^verbatim>\<open>[lastMessage, userRole]\<close>: under
  \<^verbatim>\<open>lastMessage !== null && userRole === "buyer"\<close> it parses the frame inside
  \<^verbatim>\<open>try\<close>, logs the message and runs the two blocks; whatever is thrown inside is
  caught and logged.
\<close>

definition message_effect :: "nat \<Rightarrow> provider_state \<Rightarrow> provider_state" where
  "message_effect now st =
     (case lastMessage st of
        None \<Rightarrow> st
      | Some fr \<Rightarrow>
          if userRole st \<noteq> Some ''buyer'' then st
          else (case JSON_parse fr of
                  Inl e \<Rightarrow> parse_failed st
                | Inr JNull \<Rightarrow>
                    parse_failed (st\<lparr>console := console st @ [Log ''Received WebSocket message:'']\<rparr>)
                | Inr (JMessage m) \<Rightarrow>
                    order_branch now m (product_branch now m
                      (st\<lparr>console := console st @ [Log ''Received WebSocket message:'']\<rparr>))))"

text \<open>
  The value of the context, computed in the body of the component on every render:
  \<^verbatim>\<open>{ connectionStatus, lastMessage: lastMessage ? JSON.parse(lastMessage.data) : null }\<close>.
  This call of \<^verbatim>\<open>JSON.parse\<close> stands outside any \<^verbatim>\<open>try\<close>.
\<close>

definition context_value :: "provider_state \<Rightarrow> exn + channel_state \<times> json_value option" where
  "context_value st =
     (case lastMessage st of
        None \<Rightarrow> Inr (channel st, None)
      | Some fr \<Rightarrow>
          (case JSON_parse fr of
             Inl e \<Rightarrow> Inl e
           | Inr v \<Rightarrow> Inr (channel st, Some v)))"

text \<open>
  \<^verbatim>\<open>showNotification && newProduct && <ProductNotification product={newProduct} />\<close>, and
  the same for orders: the notification on screen, if any.
\<close>

definition visible_product :: "provider_state \<Rightarrow> json_data option" where
  "visible_product st = (if showNotification st then newProduct st else None)"

definition visible_order :: "provider_state \<Rightarrow> json_data option" where
  "visible_order st = (if showOrderNotification st then updatedOrder st else None)"

text \<open>A render of the provider: the context value first, then the two notifications.\<close>

definition render ::
  "provider_state \<Rightarrow> exn + (channel_state \<times> json_value option) \<times> json_data option \<times> json_data option"
where
  "render st =
     (case context_value st of
        Inl e \<Rightarrow> Inl e
      | Inr v \<Rightarrow> Inr (v, visible_product st, visible_order st))"

text \<open>
  A frame arrives: the hook stores it in \<open>lastMessage\<close>, the provider renders again,
  and once that render has finished the message effect runs. An exception thrown by the
  render leaves the component, so the effect of that render never runs.
\<close>

definition receive :: "nat \<Rightarrow> frame \<Rightarrow> provider_state \<Rightarrow> exn + provider_state" where
  "receive now fr st =
     (case render (st\<lparr>lastMessage := Some fr\<rparr>) of
        Inl e \<Rightarrow> Inl e
      | Inr v \<Rightarrow> Inr (message_effect now (st\<lparr>lastMessage := Some fr\<rparr>)))"

text \<open>
  The callbacks \<^verbatim>\<open>() => setShowNotification(false)\<close> and
  \<^verbatim>\<open>() => setShowOrderNotification(false)\<close>, and the passing of time: at time \<open>t\<close>
  every pending timer that is due has fired and is gone.
\<close>

fun run_callback :: "timer_callback \<Rightarrow> provider_state \<Rightarrow> provider_state" where
  "run_callback HideProduct st = st\<lparr>showNotification := False\<rparr>"
| "run_callback HideOrder st = st\<lparr>showOrderNotification := False\<rparr>"

fun fire :: "nat \<Rightarrow> (nat \<times> timer_callback) list \<Rightarrow> provider_state \<Rightarrow> provider_state" where
  "fire t [] st = st"
| "fire t ((due, cb) # ts) st = fire t ts (if due \<le> t then run_callback cb st else st)"

definition elapse :: "nat \<Rightarrow> provider_state \<Rightarrow> provider_state" where
  "elapse t st = (fire t (timers st) st)\<lparr>timers := filter (\<lambda>(due, cb). t < due) (timers st)\<rparr>"

definition handleCloseNotification :: "provider_state \<Rightarrow> provider_state" where
  "handleCloseNotification st = st\<lparr>showNotification := False\<rparr>"

definition handleCloseOrderNotification :: "provider_state \<Rightarrow> provider_state" where
  "handleCloseOrderNotification st = st\<lparr>showOrderNotification := False\<rparr>"

text \<open>
  A frame arrives at the time \<open>now\<close>: the timers that were due by then have fired
  before it is handled.
\<close>

definition arrive :: "nat \<Rightarrow> frame \<Rightarrow> provider_state \<Rightarrow> exn + provider_state" where
  "arrive now fr st = receive now fr (elapse now st)"

text \<open>
  What can happen to a mounted provider. A frame is delivered only on an open socket.
  A run stops at the first exception that leaves a render.
\<close>

datatype provider_event =
    Socket socket_event
  | Frame nat frame
  | Elapse nat
  | CloseProduct
  | CloseOrder

fun provider_step :: "provider_event \<Rightarrow> provider_state \<Rightarrow> exn + provider_state" where
  "provider_step (Socket ev) st = Inr (socket_step ev st)"
| "provider_step (Frame now fr) st = (if channel st = Connected then arrive now fr st else Inr st)"
| "provider_step (Elapse t) st = Inr (elapse t st)"
| "provider_step CloseProduct st = Inr (handleCloseNotification st)"
| "provider_step CloseOrder st = Inr (handleCloseOrderNotification st)"

fun run :: "provider_event list \<Rightarrow> provider_state \<Rightarrow> exn + provider_state" where
  "run [] st = Inr st"
| "run (ev # evs) st = (case provider_step ev st of Inl e \<Rightarrow> Inl e | Inr st' \<Rightarrow> run evs st')"

text \<open>The frame of a \<^verbatim>\<open>product_created\<close> event with payload \<open>d\<close>.\<close>

definition product_frame :: "json_data \<Rightarrow> frame" where
  "product_frame d = Wellformed (JMessage \<lparr>event = ''product_created'', data = Some d\<rparr>)"

text \<open>A provider whose role is not the buyer's has no socket and has never asked for one.\<close>

definition idle :: "provider_state \<Rightarrow> bool" where
  "idle st \<longleftrightarrow> userRole st \<noteq> Some ''buyer'' \<and> channel st = Disconnected \<and> attempts st = 0"

section \<open>Example data\<close>

definition tea_100g :: product_option where
  "tea_100g =
     \<lparr>opt_id = ''optA'', opt_code = ''A'', opt_name = ''100g'', opt_price = 500,
      opt_quantity = 10\<rparr>"

definition tea_250g :: product_option where
  "tea_250g =
     \<lparr>opt_id = ''optB'', opt_code = ''B'', opt_name = ''250g'', opt_price = 1100,
      opt_quantity = 4\<rparr>"

definition tea_product :: product where
  "tea_product =
     \<lparr>prod_id = ''p1'', prod_code = ''TEA'', prod_name = ''Green tea'', prod_img = '''',
      prod_options = [tea_100g, tea_250g]\<rparr>"

text \<open>A product whose only option is out of stock: its ceiling is 0.\<close>

definition sold_out_100g :: product_option where
  "sold_out_100g =
     \<lparr>opt_id = ''optA'', opt_code = ''A'', opt_name = ''100g'', opt_price = 500,
      opt_quantity = 0\<rparr>"

definition sold_out_product :: product where
  "sold_out_product =
     \<lparr>prod_id = ''p1'', prod_code = ''TEA'', prod_name = ''Green tea'', prod_img = '''',
      prod_options = [sold_out_100g]\<rparr>"

text \<open>The page after the user has picked the 100g option of each of the two products.\<close>

definition tea_selected :: page_state where
  "tea_selected = handleOptionSelect (initial_page [tea_product]) ''p1'' ''optA''"

definition sold_out_selected :: page_state where
  "sold_out_selected = handleOptionSelect (initial_page [sold_out_product]) ''p1'' ''optA''"

text \<open>
  A product whose option costs 9007199254740991, the largest safe integer, and the page
  after the user has picked that option, asked for three of it and pressed Add.
\<close>

definition pricey_100g :: product_option where
  "pricey_100g =
     \<lparr>opt_id = ''optA'', opt_code = ''A'', opt_name = ''100g'', opt_price = 9007199254740991,
      opt_quantity = 10\<rparr>"

definition pricey_product :: product where
  "pricey_product =
     \<lparr>prod_id = ''p1'', prod_code = ''TEA'', prod_name = ''Green tea'', prod_img = ''x'',
      prod_options = [pricey_100g]\<rparr>"

definition pricey_page :: page_state where
  "pricey_page =
     addToCart (handleQuantityChange
       (handleOptionSelect (initial_page [pricey_product]) ''p1'' ''optA'') ''p1'' 3) ''p1''"

text \<open>A cart of three lines.\<close>

definition three_lines :: "cart_item list" where
  "three_lines =
     [newItem ''p1'' tea_product ''optA'' tea_100g 2,
      newItem ''p1'' tea_product ''optB'' tea_250g 1,
      newItem ''p2'' tea_product ''optA'' tea_100g 3]"

text \<open>A buyer whose channel is open, and two payloads.\<close>

definition connected_buyer :: provider_state where
  "connected_buyer = socket_step HandshakeOk (mount (Some (Decoded (Some ''buyer''))))"

definition first_payload :: json_data where
  "first_payload =
     ProductData \<lparr>pc_id = ''11'', pc_code = ''KB-1'', pc_name = ''Keyboard'', pc_img = '''',
                  pc_options = [\<lparr>co_id = ''a'', co_name = ''black'', co_price = 9000,
                                 co_quantity = 5\<rparr>]\<rparr>"

definition second_payload :: json_data where
  "second_payload =
     ProductData \<lparr>pc_id = ''12'', pc_code = ''SP-1'', pc_name = ''Speaker'', pc_img = '''',
                  pc_options = []\<rparr>"

section \<open>Lemmas on the array helpers\<close>

lemma exponent_of_small: "m < 2 ^ 53 \<Longrightarrow> exponent_of m = 0"
  by (simp add: exponent_of.simps)

lemma exponent_of_large: "\<not> m < 2 ^ 53 \<Longrightarrow> exponent_of m = Suc (exponent_of (m div 2))"
  by (subst exponent_of.simps) simp

lemma to_double_safe: "safe_integer x \<Longrightarrow> to_double x = Num x"
proof -
  assume "safe_integer x"
  then have m: "nat \<bar>x\<bar> < 2 ^ 53" by (simp add: safe_integer_def nat_less_iff)
  then have e: "exponent_of (nat \<bar>x\<bar>) = 0" by (rule exponent_of_small)
  have "(nat \<bar>x\<bar>::nat) < 2 ^ 1024"
    using m by (rule less_trans) simp
  then show ?thesis
    by (simp add: to_double_def e Let_def not_le sgn_if)
qed

lemma safe_integer_0: "safe_integer 0"
  by (simp add: safe_integer_def)

lemma foldl_total_safe:
  "safe_integer a \<Longrightarrow> safe_totals a xs \<Longrightarrow>
     foldl (\<lambda>total item. js_add total (js_mul (Num (price item)) (Num (quantity item))))
       (Num a) xs = Num (a + (\<Sum>item\<leftarrow>xs. price item * quantity item))"
proof (induction xs arbitrary: a)
  case Nil
  then show ?case by simp
next
  case (Cons x xs)
  from Cons.prems have p: "safe_integer (price x * quantity x)"
    and t: "safe_integer (a + price x * quantity x)"
    and rest: "safe_totals (a + price x * quantity x) xs" by simp_all
  have "js_add (Num a) (js_mul (Num (price x)) (Num (quantity x))) =
      Num (a + price x * quantity x)"
    by (simp add: to_double_safe [OF p] to_double_safe [OF t])
  with Cons.IH [OF t rest] show ?case by (simp add: add.assoc)
qed

lemma filter_index_from_below:
  "index < int k \<Longrightarrow> filter_index_from k index xs = xs"
  by (induction xs arbitrary: k) auto

lemma filter_index_from_beyond:
  "int k + int (length xs) \<le> index \<Longrightarrow> filter_index_from k index xs = xs"
  by (induction xs arbitrary: k) auto

lemma filter_index_from_hit:
  "int k \<le> index \<Longrightarrow> index < int k + int (length xs) \<Longrightarrow>
     filter_index_from k index xs =
       take (nat (index - int k)) xs @ drop (Suc (nat (index - int k))) xs"
proof (induction xs arbitrary: k)
  case Nil
  then show ?case by simp
next
  case (Cons x xs)
  show ?case
  proof (cases "int k = index")
    case True
    then show ?thesis by (simp add: filter_index_from_below)
  next
    case False
    with Cons.prems have lo: "int (Suc k) \<le> index"
      and hi: "index < int (Suc k) + int (length xs)" by auto
    from lo have step: "nat (index - int k) = Suc (nat (index - int (Suc k)))" by simp
    from False Cons.IH [OF lo hi] show ?thesis by (simp add: step)
  qed
qed

lemma find_Some_pred: "find P xs = Some x \<Longrightarrow> P x"
  by (induction xs) (auto split: if_splits)

section \<open>Lemmas on the cart update\<close>

lemma addOrMerge_Nil: "addOrMerge [] pid p oid opt q = [newItem pid p oid opt q]"
  by (simp add: addOrMerge_def)

lemma addOrMerge_Cons:
  "addOrMerge (x # c) pid p oid opt q =
     (if same_pair pid oid x then x\<lparr>quantity := quantity x + q\<rparr> # c
      else x # addOrMerge c pid p oid opt q)"
  by (cases "findIndex (same_pair pid oid) c") (simp_all add: addOrMerge_def)


lemma map_key_addOrMerge:
  "map line_key (addOrMerge c pid p oid opt q) =
     (if (pid, oid) \<in> set (map line_key c) then map line_key c
      else map line_key c @ [(pid, oid)])"
  by (induction c)
    (auto simp: addOrMerge_Nil addOrMerge_Cons newItem_def line_key_def same_pair_def)

lemma cart_unique_addOrMerge:
  "cart_unique c \<Longrightarrow> cart_unique (addOrMerge c pid p oid opt q)"
  by (simp add: cart_unique_def map_key_addOrMerge)





section \<open>Lemmas on \<^verbatim>\<open>addToCart\<close>\<close>

lemma find_selectedOption_unselected:
  "selectedOptions st pid = None \<Longrightarrow> find_selectedOption st pid = None"
  by (simp add: find_selectedOption_def find_None_iff split: option.splits)

lemma find_selectedOption_unknown:
  "find_product st pid = None \<Longrightarrow> find_selectedOption st pid = None"
  by (simp add: find_selectedOption_def)

lemma find_selectedOption_quantities:
  "find_selectedOption (st\<lparr>quantities := qs\<rparr>) pid = find_selectedOption st pid"
  by (simp add: find_selectedOption_def find_product_def split: option.splits)

lemma addToCart_fail:
  "find_selectedOption st pid = None \<Longrightarrow>
     addToCart st pid = st\<lparr>toasts := toasts st @ [select_option_toast]\<rparr>"
  by (simp add: addToCart_def split: option.splits)

lemma addToCart_success:
  "find_product st pid = Some p \<Longrightarrow> find_selectedOption st pid = Some opt \<Longrightarrow>
     addToCart st pid =
       st\<lparr>cart := addOrMerge (cart st) pid p (opt_id opt) opt (chosen_quantity st pid),
          toasts := toasts st @ [added_toast p opt],
          selectedOptions := (selectedOptions st)(pid \<mapsto> ''''),
          quantities := (quantities st)(pid \<mapsto> 1)\<rparr>"
  by (simp add: addToCart_def)


text \<open>
  The state that \<open>addToCart_with\<close> starts from is the one the handlers of the page
  produce: picking the option and then asking for the quantity \<open>q\<close> stores \<open>q\<close> when
  it is within the ceiling, and the 1 of the pick otherwise.
\<close>

lemma addToCart_with_handlers:
  assumes "find_product st pid = Some p"
    and "find (\<lambda>opt. opt_id opt = oid) (prod_options p) = Some opt"
  shows "addToCart (handleQuantityChange (handleOptionSelect st pid oid) pid q) pid =
     addToCart_with st pid oid (if 1 \<le> q \<and> q \<le> opt_quantity opt then q else 1)"
proof -
  from assms(2) have "opt_id opt = oid" by (rule find_Some_pred)
  with assms have sel: "find_selectedOption (handleOptionSelect st pid oid) pid = Some opt"
    by (simp add: find_selectedOption_def find_product_def handleOptionSelect_def)
  have "handleQuantityChange (handleOptionSelect st pid oid) pid q =
      st\<lparr>selectedOptions := (selectedOptions st)(pid \<mapsto> oid),
         quantities := (quantities st)(pid \<mapsto> (if 1 \<le> q \<and> q \<le> opt_quantity opt then q else 1))\<rparr>"
    unfolding handleQuantityChange_def sel by (simp add: handleOptionSelect_def)
  then show ?thesis by (simp add: addToCart_with_def)
qed

lemma add_sequence_Nil [simp]: "add_sequence st pid oid [] = st"
  by (simp add: add_sequence_def)

lemma add_sequence_Cons [simp]:
  "add_sequence st pid oid (q # qs) = add_sequence (addToCart_with st pid oid q) pid oid qs"
  by (simp add: add_sequence_def)


text \<open>
  The invariant holds on the empty cart of a fresh page, and the two handlers that write
  the cart keep it; so it holds in every state the page can reach.
\<close>

lemma filter_index_from_subset: "set (filter_index_from k index xs) \<subseteq> set xs"
  by (induction xs arbitrary: k) auto

lemma distinct_filter_index_from:
  "distinct (map f xs) \<Longrightarrow> distinct (map f (filter_index_from k index xs))"
proof (induction xs arbitrary: k)
  case Nil
  then show ?case by simp
next
  case (Cons x xs)
  from Cons.prems have "f x \<notin> f ` set (filter_index_from (Suc k) index xs)"
    using filter_index_from_subset [of "Suc k" index xs] by auto
  with Cons show ?case by simp
qed

lemma cart_unique_initial: "cart_unique (cart (initial_page ps))"
  by (simp add: cart_unique_def initial_page_def)

lemma cart_unique_removeFromCart:
  "cart_unique (cart st) \<Longrightarrow> cart_unique (cart (removeFromCart st index))"
  by (simp add: cart_unique_def removeFromCart_def distinct_filter_index_from)

lemma cart_unique_addToCart:
  "cart_unique (cart st) \<Longrightarrow> cart_unique (cart (addToCart st pid))"
  by (cases "find_product st pid"; cases "find_selectedOption st pid")
    (simp_all add: addToCart_def cart_unique_addOrMerge)

section \<open>Lemmas on the provider\<close>

lemma fire_channel:
  "userRole (fire t ts st) = userRole st \<and> channel (fire t ts st) = channel st
     \<and> attempts (fire t ts st) = attempts st"
proof (induction ts arbitrary: st)
  case Nil
  then show ?case by simp
next
  case (Cons a ts)
  obtain due cb where a: "a = (due, cb)" by (cases a)
  show ?case by (cases cb) (simp_all add: a Cons.IH)
qed

lemma fire_product:
  "newProduct (fire t ts st) = newProduct st
     \<and> showNotification (fire t ts st) =
         (showNotification st \<and> \<not> (\<exists>due. (due, HideProduct) \<in> set ts \<and> due \<le> t))"
proof (induction ts arbitrary: st)
  case Nil
  then show ?case by simp
next
  case (Cons a ts)
  obtain due cb where a: "a = (due, cb)" by (cases a)
  show ?case by (cases cb) (auto simp: a Cons.IH)
qed

lemma elapse_userRole: "userRole (elapse t st) = userRole st"
  by (simp add: elapse_def fire_channel)

lemma elapse_timers: "timers (elapse t st) = filter (\<lambda>(due, cb). t < due) (timers st)"
  by (simp add: elapse_def)

lemma filter_later:
  "t1 \<le> t2 \<Longrightarrow>
     filter (\<lambda>(due, cb). t2 < due) (filter (\<lambda>(due, cb). t1 < due) ts) =
       filter (\<lambda>(due, cb). (t2::nat) < due) ts"
  by (induction ts) auto

lemma idle_step: "idle st \<Longrightarrow> \<exists>st'. provider_step ev st = Inr st' \<and> idle st'"
proof (cases ev)
  case (Socket x1)
  assume "idle st"
  then show ?thesis by (cases x1) (simp_all add: Socket idle_def)
next
  case (Frame now fr)
  assume "idle st"
  then show ?thesis by (simp add: Frame idle_def)
next
  case (Elapse t)
  assume "idle st"
  then show ?thesis by (simp add: Elapse idle_def elapse_def fire_channel)
next
  case CloseProduct
  assume "idle st"
  then show ?thesis by (simp add: CloseProduct idle_def handleCloseNotification_def)
next
  case CloseOrder
  assume "idle st"
  then show ?thesis by (simp add: CloseOrder idle_def handleCloseOrderNotification_def)
qed

lemma idle_run: "idle st \<Longrightarrow> \<exists>st'. run evs st = Inr st' \<and> idle st'"
proof (induction evs arbitrary: st)
  case Nil
  then show ?case by simp
next
  case (Cons ev evs)
  from idle_step [OF Cons.prems, of ev] obtain st1
    where st1: "provider_step ev st = Inr st1" "idle st1" by blast
  from Cons.IH [OF st1(2)] st1(1) show ?case by simp
qed

lemma idle_mount: "tok \<noteq> Some (Decoded (Some ''buyer'')) \<Longrightarrow> idle (mount tok)"
  by (auto simp: mount_def mount_effect_def sync_channel_def connect_flag_def idle_def
      initial_provider_def split: option.splits token.splits)

lemma receive_product:
  "userRole st = Some ''buyer'' \<Longrightarrow>
     receive now (product_frame d) st =
       Inr (st\<lparr>lastMessage := Some (product_frame d),
               console := console st @ [Log ''Received WebSocket message:''],
               newProduct := Some d, showNotification := True,
               timers := timers st @ [(now + dismiss_after, HideProduct)]\<rparr>)"
  by (simp add: receive_def render_def context_value_def message_effect_def product_frame_def
      product_branch_def order_branch_def)

section \<open>The cart store\<close>



text \<open>
  Claim C6, as the specification has it, fails: the total is not always the sum. The
  page on which three units of an option priced 9007199254740991 have been added has
  one line; its price and its quantity are safe integers and their product is
  27021597764222973, but \<^verbatim>\<open>getTotalAmount\<close> returns 27021597764222972, the nearest
  double.
\<close>

theorem getTotalAmount_rounds:
  "map price (cart pricey_page) = [9007199254740991]
   \<and> map quantity (cart pricey_page) = [3]
   \<and> safe_integer 9007199254740991 \<and> safe_integer 3
   \<and> 9007199254740991 * 3 = (27021597764222973::int)
   \<and> getTotalAmount pricey_page = Num 27021597764222972"
proof -
  have c: "cart pricey_page = [newItem ''p1'' pricey_product ''optA'' pricey_100g 3]"
    by (simp add: pricey_page_def handleOptionSelect_def handleQuantityChange_def
        initial_page_def find_selectedOption_def find_product_def pricey_product_def
        pricey_100g_def chosen_quantity_def addToCart_def addOrMerge_def)
  have r: "to_double 27021597764222973 = Num 27021597764222972"
    by (simp add: to_double_def exponent_of_small exponent_of_large Let_def)
  have r': "to_double 27021597764222972 = Num 27021597764222972"
    by (simp add: to_double_def exponent_of_small exponent_of_large Let_def)
  show ?thesis
    by (simp add: c newItem_def pricey_100g_def getTotalAmount_def safe_integer_def r r')
qed

text \<open>
  Claim C6, amended. \<^verbatim>\<open>getTotalAmount\<close> returns the sum over all current cart lines
  of unit price times quantity as double-precision arithmetic computes it. It equals
  the exact sum whenever the price, the quantity, their product and the running total
  of every line are safe integers (magnitude at most \<open>2 ^ 53 - 1\<close>). Computing it has
  no side effects: the call leaves the page state as it found it, and its result
  depends on the cart alone.
\<close>

theorem getTotalAmount_exact_when_safe:
  "(safe_totals 0 (cart st) \<longrightarrow>
      getTotalAmount st = Num (\<Sum>item\<leftarrow>cart st. price item * quantity item))
   \<and> snd (getTotalAmount_call st) = st
   \<and> fst (getTotalAmount_call st) = getTotalAmount st
   \<and> getTotalAmount (st\<lparr>products := ps, selectedOptions := so, quantities := qs, toasts := ts\<rparr>)
       = getTotalAmount st"
proof (intro conjI impI)
  assume "safe_totals 0 (cart st)"
  from foldl_total_safe [OF safe_integer_0 this]
  show "getTotalAmount st = Num (\<Sum>item\<leftarrow>cart st. price item * quantity item)"
    by (simp add: getTotalAmount_def)
qed (simp_all add: getTotalAmount_call_def getTotalAmount_def)

theorem getTotalAmount_exact_when_safe_witness:
  "safe_totals 0 (cart (initial_page [tea_product]\<lparr>cart := three_lines\<rparr>))
   \<and> getTotalAmount (initial_page [tea_product]\<lparr>cart := three_lines\<rparr>) = Num 3600"
proof -
  have h: "safe_totals 0 (cart (initial_page [tea_product]\<lparr>cart := three_lines\<rparr>))"
    by (simp add: three_lines_def newItem_def tea_100g_def tea_250g_def safe_integer_def)
  from getTotalAmount_exact_when_safe [of "initial_page [tea_product]\<lparr>cart := three_lines\<rparr>"] h
  show ?thesis
    by (simp add: three_lines_def newItem_def tea_100g_def tea_250g_def)
qed

text \<open>
  Claim C7. \<^verbatim>\<open>removeFromCart\<close> with an index outside \<open>0 \<dots> length - 1\<close> (so always on
  an empty cart) leaves the state, and with it the cart and its length, as they were;
  with an index inside the range it drops exactly the line at that index and keeps the
  others in their order. Nothing but the cart is touched.
\<close>

theorem removeFromCart_spec:
  "(index < 0 \<or> int (length (cart st)) \<le> index \<longrightarrow> removeFromCart st index = st)
   \<and> (0 \<le> index \<and> index < int (length (cart st)) \<longrightarrow>
        cart (removeFromCart st index) =
          take (nat index) (cart st) @ drop (Suc (nat index)) (cart st)
        \<and> length (cart (removeFromCart st index)) = length (cart st) - 1)
   \<and> removeFromCart st index = st\<lparr>cart := cart (removeFromCart st index)\<rparr>"
proof (intro conjI impI)
  assume "index < 0 \<or> int (length (cart st)) \<le> index"
  then have "filter_index_from 0 index (cart st) = cart st"
    using filter_index_from_below [of index 0 "cart st"]
      filter_index_from_beyond [of 0 "cart st" index] by auto
  then show "removeFromCart st index = st" by (simp add: removeFromCart_def)
next
  assume inside: "0 \<le> index \<and> index < int (length (cart st))"
  then have hit: "filter_index_from 0 index (cart st) =
      take (nat index) (cart st) @ drop (Suc (nat index)) (cart st)"
    using filter_index_from_hit [of 0 index "cart st"] by simp
  then show "cart (removeFromCart st index) =
      take (nat index) (cart st) @ drop (Suc (nat index)) (cart st)"
    by (simp add: removeFromCart_def)
  from inside hit show "length (cart (removeFromCart st index)) = length (cart st) - 1"
    by (simp add: removeFromCart_def) linarith
next
  show "removeFromCart st index = st\<lparr>cart := cart (removeFromCart st index)\<rparr>"
    by (simp add: removeFromCart_def)
qed

theorem removeFromCart_spec_witness:
  "cart (removeFromCart (initial_page [tea_product]\<lparr>cart := three_lines\<rparr>) 1) =
     [newItem ''p1'' tea_product ''optA'' tea_100g 2, newItem ''p2'' tea_product ''optA'' tea_100g 3]
   \<and> removeFromCart (initial_page [tea_product]\<lparr>cart := three_lines\<rparr>) 3 =
       initial_page [tea_product]\<lparr>cart := three_lines\<rparr>
   \<and> removeFromCart (initial_page [tea_product]\<lparr>cart := three_lines\<rparr>) (- 1) =
       initial_page [tea_product]\<lparr>cart := three_lines\<rparr>
   \<and> removeFromCart (initial_page [tea_product]) 0 = initial_page [tea_product]"
proof -
  let ?st = "initial_page [tea_product]\<lparr>cart := three_lines\<rparr>"
  have len: "length (cart ?st) = 3" by (simp add: three_lines_def)
  have a: "cart (removeFromCart ?st 1) =
      [newItem ''p1'' tea_product ''optA'' tea_100g 2, newItem ''p2'' tea_product ''optA'' tea_100g 3]"
    using removeFromCart_spec [of 1 ?st] by (simp add: three_lines_def)
  have b: "removeFromCart ?st 3 = ?st"
    using removeFromCart_spec [of 3 ?st] len by simp
  have c: "removeFromCart ?st (- 1) = ?st"
    using removeFromCart_spec [of "- 1" ?st] by simp
  have d: "removeFromCart (initial_page [tea_product]) 0 = initial_page [tea_product]"
    using removeFromCart_spec [of 0 "initial_page [tea_product]"] by (simp add: initial_page_def)
  from a b c d show ?thesis by simp
qed

section \<open>Quantities\<close>




text \<open>
  Claim C5, as the specification has it, fails in its last part: the stored quantity
  can lie outside the range. For the out-of-stock option the pick stores the quantity
  1 above the ceiling 0; \<^verbatim>\<open>handleQuantityChange\<close> then drops the request for 5 and
  keeps that 1.
\<close>

theorem stored_quantity_above_ceiling:
  "find_selectedOption sold_out_selected ''p1'' = Some sold_out_100g
   \<and> opt_quantity sold_out_100g = 0
   \<and> handleQuantityChange sold_out_selected ''p1'' 5 = sold_out_selected
   \<and> quantities (handleQuantityChange sold_out_selected ''p1'' 5) ''p1'' = Some 1
   \<and> \<not> quantity_in_range (handleQuantityChange sold_out_selected ''p1'' 5) ''p1''"
  by (simp add: sold_out_selected_def handleOptionSelect_def initial_page_def
      find_selectedOption_def find_product_def sold_out_product_def sold_out_100g_def
      handleQuantityChange_def quantity_in_range_def)

text \<open>
  Claim C5, amended. With an option selected, \<^verbatim>\<open>handleQuantityChange\<close> stores the
  requested quantity exactly when it lies between 1 and the ceiling of that option, and
  changes nothing else; any other request leaves the whole state as it was. It never
  shows a toast. So a quantity it writes is never outside the range, and a stored
  quantity that lies in the range stays in it.
\<close>

theorem handleQuantityChange_soft_clamp:
  "(find_selectedOption st pid = Some opt \<longrightarrow>
      handleQuantityChange st pid q =
        (if 1 \<le> q \<and> q \<le> opt_quantity opt then st\<lparr>quantities := (quantities st)(pid \<mapsto> q)\<rparr>
         else st))
   \<and> toasts (handleQuantityChange st pid q) = toasts st
   \<and> (find_selectedOption st pid = Some opt
          \<and> quantities (handleQuantityChange st pid q) pid \<noteq> quantities st pid \<longrightarrow>
        quantities (handleQuantityChange st pid q) pid = Some q
        \<and> 1 \<le> q \<and> q \<le> opt_quantity opt)
   \<and> (quantity_in_range st pid \<longrightarrow> quantity_in_range (handleQuantityChange st pid q) pid)"
  by (auto simp: handleQuantityChange_def quantity_in_range_def find_selectedOption_quantities
      split: option.splits)

theorem handleQuantityChange_soft_clamp_witness:
  "find_selectedOption tea_selected ''p1'' = Some tea_100g
   \<and> quantity_in_range tea_selected ''p1''
   \<and> quantities tea_selected ''p1'' = Some 1
   \<and> quantities (handleQuantityChange tea_selected ''p1'' 3) ''p1'' = Some 3
   \<and> quantity_in_range (handleQuantityChange tea_selected ''p1'' 3) ''p1''
   \<and> handleQuantityChange tea_selected ''p1'' 11 = tea_selected
   \<and> handleQuantityChange tea_selected ''p1'' 0 = tea_selected"
proof -
  have h2: "find_selectedOption tea_selected ''p1'' = Some tea_100g"
    by (simp add: tea_selected_def handleOptionSelect_def initial_page_def find_product_def
        find_selectedOption_def tea_product_def tea_100g_def)
  have h3: "opt_quantity tea_100g = 10" by (simp add: tea_100g_def)
  have h4: "quantities tea_selected ''p1'' = Some 1"
    by (simp add: tea_selected_def handleOptionSelect_def)
  have h5: "quantity_in_range tea_selected ''p1''"
    by (simp add: quantity_in_range_def h2 h3 h4)
  have a: "handleQuantityChange tea_selected ''p1'' 3 =
      tea_selected\<lparr>quantities := (quantities tea_selected)(''p1'' \<mapsto> 3)\<rparr>"
    using handleQuantityChange_soft_clamp [of tea_selected "''p1''" tea_100g 3, THEN conjunct1]
      h2 h3 by simp
  then have a': "quantities (handleQuantityChange tea_selected ''p1'' 3) ''p1'' = Some 3"
    by simp
  have b: "quantity_in_range (handleQuantityChange tea_selected ''p1'' 3) ''p1''"
    using handleQuantityChange_soft_clamp [of tea_selected "''p1''" tea_100g 3,
        THEN conjunct2, THEN conjunct2, THEN conjunct2] h5 by (rule mp)
  have c: "handleQuantityChange tea_selected ''p1'' 11 = tea_selected"
    using handleQuantityChange_soft_clamp [of tea_selected "''p1''" tea_100g 11, THEN conjunct1]
      h2 h3 by simp
  have d: "handleQuantityChange tea_selected ''p1'' 0 = tea_selected"
    using handleQuantityChange_soft_clamp [of tea_selected "''p1''" tea_100g 0, THEN conjunct1]
      h2 h3 by simp
  from h2 h4 h5 a' b c d show ?thesis by simp
qed

section \<open>Selection\<close>

text \<open>
  Claim C9. \<^verbatim>\<open>handleOptionSelect\<close> stores the chosen option for the product and sets
  its quantity to 1, and touches nothing else. After an \<^verbatim>\<open>addToCart\<close> that found the
  product and its selected option, the selection of the product is the empty string
  and its quantity is 1. The empty string stands for no selection: in a product none
  of whose options has the empty string as its id, a second \<^verbatim>\<open>addToCart\<close> right after
  the first finds no selected option and leaves the cart as the first one left it.
\<close>

theorem selection_set_and_cleared:
  "handleOptionSelect st pid oid =
     st\<lparr>selectedOptions := (selectedOptions st)(pid \<mapsto> oid),
        quantities := (quantities st)(pid \<mapsto> 1)\<rparr>
   \<and> selectedOptions (handleOptionSelect st pid oid) pid = Some oid
   \<and> quantities (handleOptionSelect st pid oid) pid = Some 1
   \<and> (find_product st pid = Some p \<and> find_selectedOption st pid = Some opt \<longrightarrow>
        selectedOptions (addToCart st pid) pid = Some ''''
        \<and> quantities (addToCart st pid) pid = Some 1
        \<and> ((\<forall>x\<in>set (prod_options p). opt_id x \<noteq> '''') \<longrightarrow>
             find_selectedOption (addToCart st pid) pid = None
             \<and> cart (addToCart (addToCart st pid) pid) = cart (addToCart st pid)))"
proof (intro conjI impI)
  show "handleOptionSelect st pid oid =
     st\<lparr>selectedOptions := (selectedOptions st)(pid \<mapsto> oid),
        quantities := (quantities st)(pid \<mapsto> 1)\<rparr>"
    by (simp add: handleOptionSelect_def)
  show "selectedOptions (handleOptionSelect st pid oid) pid = Some oid"
    by (simp add: handleOptionSelect_def)
  show "quantities (handleOptionSelect st pid oid) pid = Some 1"
    by (simp add: handleOptionSelect_def)
next
  assume found: "find_product st pid = Some p \<and> find_selectedOption st pid = Some opt"
  then have eq: "addToCart st pid =
       st\<lparr>cart := addOrMerge (cart st) pid p (opt_id opt) opt (chosen_quantity st pid),
          toasts := toasts st @ [added_toast p opt],
          selectedOptions := (selectedOptions st)(pid \<mapsto> ''''),
          quantities := (quantities st)(pid \<mapsto> 1)\<rparr>"
    by (simp add: addToCart_success)
  show "selectedOptions (addToCart st pid) pid = Some ''''" by (simp add: eq)
  show "quantities (addToCart st pid) pid = Some 1" by (simp add: eq)
  assume ids: "\<forall>x\<in>set (prod_options p). opt_id x \<noteq> ''''"
  from found have "find_product (addToCart st pid) pid = Some p"
    by (simp add: eq find_product_def)
  with ids show none: "find_selectedOption (addToCart st pid) pid = None"
    by (auto simp: eq find_selectedOption_def find_None_iff)
  show "cart (addToCart (addToCart st pid) pid) = cart (addToCart st pid)"
    by (simp add: addToCart_fail [OF none])
qed

theorem selection_set_and_cleared_witness:
  "find_product tea_selected ''p1'' = Some tea_product
   \<and> find_selectedOption tea_selected ''p1'' = Some tea_100g
   \<and> map opt_id (prod_options tea_product) = [''optA'', ''optB'']
   \<and> selectedOptions (addToCart tea_selected ''p1'') ''p1'' = Some ''''
   \<and> quantities (addToCart tea_selected ''p1'') ''p1'' = Some 1
   \<and> cart (addToCart (addToCart tea_selected ''p1'') ''p1'') = cart (addToCart tea_selected ''p1'')"
proof -
  have h1: "find_product tea_selected ''p1'' = Some tea_product"
    by (simp add: tea_selected_def handleOptionSelect_def initial_page_def find_product_def
        tea_product_def)
  have h2: "find_selectedOption tea_selected ''p1'' = Some tea_100g"
    by (simp add: tea_selected_def handleOptionSelect_def initial_page_def find_product_def
        find_selectedOption_def tea_product_def tea_100g_def)
  have h3: "\<forall>x\<in>set (prod_options tea_product). opt_id x \<noteq> ''''"
    by (simp add: tea_product_def tea_100g_def tea_250g_def)
  have h4: "map opt_id (prod_options tea_product) = [''optA'', ''optB'']"
    by (simp add: tea_product_def tea_100g_def tea_250g_def)
  from selection_set_and_cleared [of tea_selected "''p1''" "''optA''" tea_product tea_100g]
    h1 h2 h3 h4
  show ?thesis by simp
qed

text \<open>
  Claim C10. \<^verbatim>\<open>addToCart\<close> for a product id that is not among the products, for a
  product that has no entry in the selection, or in general whenever no selected option
  is found, shows the destructive toast \<open>Please select a product option\<close> and changes
  nothing else: the cart keeps its lines and their quantities. A selection that has
  been reset to the empty string finds no option in a product whose option ids are not
  empty.
\<close>

theorem addToCart_without_selection:
  "(find_product st pid = None \<or> selectedOptions st pid = None
      \<or> find_selectedOption st pid = None \<longrightarrow>
        addToCart st pid = st\<lparr>toasts := toasts st @ [select_option_toast]\<rparr>
        \<and> cart (addToCart st pid) = cart st
        \<and> select_option_toast = Toast ''Error'' ''Please select a product option'' True)
   \<and> (find_product st pid = Some p \<and> selectedOptions st pid = Some ''''
          \<and> (\<forall>opt\<in>set (prod_options p). opt_id opt \<noteq> '''') \<longrightarrow>
        find_selectedOption st pid = None)"
proof (intro conjI impI)
  assume "find_product st pid = None \<or> selectedOptions st pid = None
      \<or> find_selectedOption st pid = None"
  then have none: "find_selectedOption st pid = None"
    using find_selectedOption_unselected find_selectedOption_unknown by blast
  then show "addToCart st pid = st\<lparr>toasts := toasts st @ [select_option_toast]\<rparr>"
    by (rule addToCart_fail)
  then show "cart (addToCart st pid) = cart st" by simp
  show "select_option_toast = Toast ''Error'' ''Please select a product option'' True"
    by (simp add: select_option_toast_def)
next
  assume "find_product st pid = Some p \<and> selectedOptions st pid = Some ''''
          \<and> (\<forall>opt\<in>set (prod_options p). opt_id opt \<noteq> '''')"
  then show "find_selectedOption st pid = None"
    by (auto simp: find_selectedOption_def find_None_iff)
qed

theorem addToCart_without_selection_witness:
  "selectedOptions (initial_page [tea_product]\<lparr>cart := three_lines\<rparr>) ''p1'' = None
   \<and> find_product (initial_page [tea_product]\<lparr>cart := three_lines\<rparr>) ''p9'' = None
   \<and> cart (addToCart (initial_page [tea_product]\<lparr>cart := three_lines\<rparr>) ''p1'') = three_lines
   \<and> toasts (addToCart (initial_page [tea_product]\<lparr>cart := three_lines\<rparr>) ''p1'') =
       [select_option_toast]
   \<and> cart (addToCart (initial_page [tea_product]\<lparr>cart := three_lines\<rparr>) ''p9'') = three_lines
   \<and> find_selectedOption (addToCart tea_selected ''p1'') ''p1'' = None"
proof -
  let ?st = "initial_page [tea_product]\<lparr>cart := three_lines\<rparr>"
  have h1: "selectedOptions ?st ''p1'' = None" by (simp add: initial_page_def)
  have h2: "find_product ?st ''p9'' = None"
    by (simp add: initial_page_def find_product_def tea_product_def)
  have h3: "toasts ?st = []" by (simp add: initial_page_def)
  have h4: "find_product (addToCart tea_selected ''p1'') ''p1'' = Some tea_product"
    "selectedOptions (addToCart tea_selected ''p1'') ''p1'' = Some ''''"
    by (simp_all add: tea_selected_def handleOptionSelect_def initial_page_def find_product_def
        find_selectedOption_def tea_product_def tea_100g_def addToCart_def)
  have h5: "\<forall>opt\<in>set (prod_options tea_product). opt_id opt \<noteq> ''''"
    by (simp add: tea_product_def tea_100g_def tea_250g_def)
  from addToCart_without_selection [of ?st "''p1''"]
    addToCart_without_selection [of ?st "''p9''"]
    addToCart_without_selection [of "addToCart tea_selected ''p1''" "''p1''" tea_product]
    h1 h2 h3 h4 h5
  show ?thesis by simp
qed

section \<open>The push channel and the notifications\<close>

text \<open>
  Claim C8. When the token read at mount does not decode to the role \<open>buyer\<close> (another
  role such as \<open>supplier\<close>, no role, no token, or a token that does not decode), the flag
  passed to the hook is false and, whatever happens afterwards, the run goes on with the
  channel in \<open>Disconnected\<close> and no connection ever attempted. With the role \<open>buyer\<close>
  the flag is true and the channel is \<open>Connecting\<close> after its first attempt.
\<close>

theorem channel_only_for_buyer:
  "(tok \<noteq> Some (Decoded (Some ''buyer'')) \<longrightarrow>
      \<not> connect_flag (mount tok)
      \<and> (\<exists>st'. run evs (mount tok) = Inr st' \<and> channel st' = Disconnected \<and> attempts st' = 0))
   \<and> connect_flag (mount (Some (Decoded (Some ''buyer''))))
   \<and> channel (mount (Some (Decoded (Some ''buyer'')))) = Connecting
   \<and> attempts (mount (Some (Decoded (Some ''buyer'')))) = 1"
proof (intro conjI impI)
  assume other: "tok \<noteq> Some (Decoded (Some ''buyer''))"
  from idle_mount [OF other] show "\<not> connect_flag (mount tok)"
    by (simp add: idle_def connect_flag_def)
  from idle_run [OF idle_mount [OF other], of evs]
  show "\<exists>st'. run evs (mount tok) = Inr st' \<and> channel st' = Disconnected \<and> attempts st' = 0"
    by (auto simp: idle_def)
qed (simp_all add: mount_def mount_effect_def sync_channel_def connect_flag_def
    initial_provider_def)

theorem channel_only_for_buyer_witness:
  "Some (Decoded (Some ''supplier'')) \<noteq> Some (Decoded (Some ''buyer''))
   \<and> (\<exists>st'. run [Socket HandshakeOk, Frame 0 (product_frame first_payload), Elapse 5,
                 Socket TransportError]
              (mount (Some (Decoded (Some ''supplier'')))) = Inr st'
          \<and> channel st' = Disconnected \<and> attempts st' = 0)"
  using channel_only_for_buyer
    [of "Some (Decoded (Some ''supplier''))"
      "[Socket HandshakeOk, Frame 0 (product_frame first_payload), Elapse 5,
        Socket TransportError]"]
  by simp

text \<open>
  Claim C2. A frame that is not JSON, such as \<open>{not json\<close>, is not dropped: the render
  that follows its arrival evaluates \<^verbatim>\<open>JSON.parse(lastMessage.data)\<close> for the context
  value outside any \<^verbatim>\<open>try\<close>, so the \<^verbatim>\<open>SyntaxError\<close> leaves the provider and the run
  of a connected provider ends with it. The message effect on its own would have caught
  the error, logged it and changed nothing else.
\<close>

theorem malformed_frame_throws_in_render:
  "context_value (st\<lparr>lastMessage := Some (Malformed ''{not json'')\<rparr>) = Inl SyntaxError
   \<and> render (st\<lparr>lastMessage := Some (Malformed ''{not json'')\<rparr>) = Inl SyntaxError
   \<and> receive now (Malformed ''{not json'') st = Inl SyntaxError
   \<and> channel connected_buyer = Connected
   \<and> run (Frame now (Malformed ''{not json'') # evs) connected_buyer = Inl SyntaxError
   \<and> message_effect now (st\<lparr>userRole := Some ''buyer'', lastMessage := Some (Malformed ''{not json'')\<rparr>)
       = st\<lparr>userRole := Some ''buyer'', lastMessage := Some (Malformed ''{not json''),
            console := console st @ [Error ''Failed to parse WebSocket message:'']\<rparr>"
  by (simp add: context_value_def render_def receive_def arrive_def message_effect_def
      parse_failed_def connected_buyer_def mount_def mount_effect_def sync_channel_def
      connect_flag_def initial_provider_def)

text \<open>
  Claim C3, as the specification has it, fails: the timer of the first event is not
  cancelled. A first \<open>product_created\<close> frame at time 0 and a second at 60000 leave two
  timers pending, due at 100000 and 160000. The second payload is on screen up to
  99999; at 100000 the timer of the first event hides it, 60000 ms before its own timer
  is due.
\<close>

theorem first_timer_hides_second_product:
  "map_sum id timers
     (run [Frame 0 (product_frame first_payload), Frame 60000 (product_frame second_payload)]
        connected_buyer) = Inr [(100000, HideProduct), (160000, HideProduct)]
   \<and> map_sum id visible_product
       (run [Frame 0 (product_frame first_payload), Frame 60000 (product_frame second_payload),
             Elapse 99999] connected_buyer) = Inr (Some second_payload)
   \<and> map_sum id visible_product
       (run [Frame 0 (product_frame first_payload), Frame 60000 (product_frame second_payload),
             Elapse 100000] connected_buyer) = Inr None"
  by (simp add: connected_buyer_def mount_def mount_effect_def sync_channel_def
      connect_flag_def initial_provider_def arrive_def receive_def render_def
      context_value_def message_effect_def product_frame_def product_branch_def
      order_branch_def dismiss_after_def elapse_def visible_product_def)

text \<open>
  Claim C3, amended. For a buyer, a \<open>product_created\<close> event followed immediately by a
  second one, that is before the timer of the first is due, leaves one product
  notification on screen, showing the payload of the second event, and starts a timer
  of 100000 ms for it. The timer of the first event is not cancelled: it stays pending
  beside the new one, and it hides the notification 100000 ms after the first event,
  before the timer of the second event is due. From the second event on the
  notification is on screen exactly until the first pending timer for product
  notifications is due; with no older such timer pending, that is until 100000 ms after
  the first event.
\<close>

theorem second_product_event_keeps_first_timer:
  assumes "userRole st = Some ''buyer''"
    and "t1 \<le> t2"
    and "t2 < t1 + 100000"
  shows "\<exists>s1 s2. arrive t1 (product_frame d1) st = Inr s1
      \<and> arrive t2 (product_frame d2) s1 = Inr s2
      \<and> visible_product s2 = Some d2
      \<and> timers s2 =
          filter (\<lambda>(due, cb). t2 < due) (timers st)
            @ [(t1 + 100000, HideProduct), (t2 + 100000, HideProduct)]
      \<and> (\<forall>t\<ge>t2. visible_product (elapse t s2) =
            (if \<exists>due. (due, HideProduct) \<in> set (timers s2) \<and> due \<le> t then None else Some d2))
      \<and> visible_product (elapse (t1 + 100000) s2) = None
      \<and> ((\<forall>due. (due, HideProduct) \<in> set (timers st) \<longrightarrow> due \<le> t2) \<longrightarrow>
            (\<forall>t\<ge>t2. visible_product (elapse t s2) =
               (if t1 + 100000 \<le> t then None else Some d2)))"
proof -
  let ?e1 = "elapse t1 st"
  let ?s1 = "?e1\<lparr>lastMessage := Some (product_frame d1),
               console := console ?e1 @ [Log ''Received WebSocket message:''],
               newProduct := Some d1, showNotification := True,
               timers := timers ?e1 @ [(t1 + dismiss_after, HideProduct)]\<rparr>"
  let ?e2 = "elapse t2 ?s1"
  let ?s2 = "?e2\<lparr>lastMessage := Some (product_frame d2),
               console := console ?e2 @ [Log ''Received WebSocket message:''],
               newProduct := Some d2, showNotification := True,
               timers := timers ?e2 @ [(t2 + dismiss_after, HideProduct)]\<rparr>"
  have "userRole ?e1 = Some ''buyer''" using assms(1) by (simp add: elapse_userRole)
  then have r1: "arrive t1 (product_frame d1) st = Inr ?s1"
    unfolding arrive_def by (rule receive_product)
  have "userRole ?e2 = Some ''buyer''" using assms(1) by (simp add: elapse_userRole)
  then have r2: "arrive t2 (product_frame d2) ?s1 = Inr ?s2"
    unfolding arrive_def by (rule receive_product)
  have vis: "visible_product ?s2 = Some d2" by (simp add: visible_product_def)
  have tm: "timers ?s2 =
      filter (\<lambda>(due, cb). t2 < due) (timers st)
        @ [(t1 + 100000, HideProduct), (t2 + 100000, HideProduct)]"
    using assms(2,3) by (simp add: elapse_timers filter_later dismiss_after_def del: filter_filter)
  have el: "visible_product (elapse t ?s2) =
      (if \<exists>due. (due, HideProduct) \<in> set (timers ?s2) \<and> due \<le> t then None else Some d2)" for t
    by (simp add: visible_product_def elapse_def fire_product)
  have first: "visible_product (elapse (t1 + 100000) ?s2) = None"
    unfolding el tm by auto
  have only: "visible_product (elapse t ?s2) = (if t1 + 100000 \<le> t then None else Some d2)"
    if old: "\<forall>due. (due, HideProduct) \<in> set (timers st) \<longrightarrow> due \<le> t2" and "t2 \<le> t" for t
  proof -
    have "(\<exists>due. (due, HideProduct) \<in> set (timers ?s2) \<and> due \<le> t) \<longleftrightarrow> t1 + 100000 \<le> t"
      unfolding tm using old assms(2) by auto
    then show ?thesis unfolding el by simp
  qed
  from r1 r2 vis tm el first only show ?thesis by blast
qed

theorem second_product_event_keeps_first_timer_witness:
  "userRole connected_buyer = Some ''buyer''
   \<and> (0::nat) \<le> 60000 \<and> (60000::nat) < 0 + 100000
   \<and> (\<exists>s1 s2. arrive 0 (product_frame first_payload) connected_buyer = Inr s1
        \<and> arrive 60000 (product_frame second_payload) s1 = Inr s2
        \<and> visible_product s2 = Some second_payload
        \<and> timers s2 = [(100000, HideProduct), (160000, HideProduct)]
        \<and> visible_product (elapse 99999 s2) = Some second_payload
        \<and> visible_product (elapse 100000 s2) = None)"
proof -
  have h: "userRole connected_buyer = Some ''buyer''"
    by (simp add: connected_buyer_def mount_def mount_effect_def sync_channel_def
        connect_flag_def initial_provider_def)
  have t: "timers connected_buyer = []"
    by (simp add: connected_buyer_def mount_def mount_effect_def sync_channel_def
        connect_flag_def initial_provider_def)
  have a: "(0::nat) \<le> 60000" and b: "(60000::nat) < 0 + 100000" by simp_all
  from second_product_event_keeps_first_timer [OF h a b, of first_payload second_payload]
  obtain s1 s2 where s: "arrive 0 (product_frame first_payload) connected_buyer = Inr s1"
    "arrive 60000 (product_frame second_payload) s1 = Inr s2"
    "visible_product s2 = Some second_payload"
    "timers s2 = filter (\<lambda>(due, cb). 60000 < due) (timers connected_buyer)
       @ [(0 + 100000, HideProduct), (60000 + 100000, HideProduct)]"
    and late: "(\<forall>due. (due, HideProduct) \<in> set (timers connected_buyer) \<longrightarrow> due \<le> 60000) \<longrightarrow>
       (\<forall>t\<ge>60000. visible_product (elapse t s2) =
          (if 0 + 100000 \<le> t then None else Some second_payload))"
    by blast
  from late t have v: "visible_product (elapse 99999 s2) = Some second_payload"
    "visible_product (elapse 100000 s2) = None"
    by simp_all
  from h s t v show ?thesis by simp
qed

end
